theory Spec2Isabelle
  imports Main "HOL-Library.Sublist"
begin

section \<open>Python values, text conversion and dictionaries\<close>

text \<open>
  The script \<^verbatim>\<open>applehealth_healthkit_llm_query.py\<close> builds every summary as a Python
  \<^verbatim>\<open>dict\<close> with string keys and renders it with f-strings.  Values are modelled by
  \<open>pyval\<close>.  A dictionary is an association list in insertion order (the order Python
  iterates and prints it in), kept free of duplicate keys by \<open>dict_set\<close>.  A float is
  identified by its shortest round-trip text (\<^verbatim>\<open>repr\<close>), which determines the float; the
  numpy scalars that pandas returns are identified with the Python numbers of the same
  value, whose \<^verbatim>\<open>str\<close> is the same.  \<open>PObj s r\<close> is any other library object
  (a \<^verbatim>\<open>datetime\<close>, a tuple), given by its \<^verbatim>\<open>str\<close> text \<open>s\<close> and its \<^verbatim>\<open>repr\<close> text \<open>r\<close>.
\<close>

datatype pyval =
    PNone
  | PBool bool
  | PInt int
  | PFloat string
  | PStr string
  | PList "pyval list"
  | PDict "(string \<times> pyval) list"
  | PObj string string

type_synonym pydict = "(string \<times> pyval) list"

text \<open>
  Exceptions.  Every exception that the libraries and the script's own subscripts raise is
  a subclass of \<^verbatim>\<open>Exception\<close>; \<open>LibraryError\<close> carries the message of a parser, file
  or network error.
\<close>

datatype error =
    KeyError string
  | IndexError
  | TypeError string
  | LibraryError string

definition bindE :: "error + 'a \<Rightarrow> ('a \<Rightarrow> error + 'b) \<Rightarrow> error + 'b" where
  "bindE m f = (case m of Inl e \<Rightarrow> Inl e | Inr x \<Rightarrow> f x)"

subsection \<open>Dictionaries and lists\<close>

text \<open>\<^verbatim>\<open>d[k] = v\<close>: an existing key keeps its position, a new key goes last.\<close>

primrec dict_set :: "pydict \<Rightarrow> string \<Rightarrow> pyval \<Rightarrow> pydict" where
  "dict_set [] k v = [(k, v)]"
| "dict_set (p # ps) k v = (if fst p = k then (k, v) # ps else p # dict_set ps k v)"

text \<open>\<^verbatim>\<open>d.get(k)\<close>, with \<open>None\<close> for Python's \<^verbatim>\<open>None\<close> default.\<close>

definition dict_get :: "pydict \<Rightarrow> string \<Rightarrow> pyval option" where
  "dict_get d k = map_of d k"

text \<open>\<^verbatim>\<open>d[k]\<close> raises \<^verbatim>\<open>KeyError\<close> on a missing key.\<close>

definition subscript :: "pydict \<Rightarrow> string \<Rightarrow> error + pyval" where
  "subscript d k = (case map_of d k of None \<Rightarrow> Inl (KeyError k) | Some v \<Rightarrow> Inr v)"

text \<open>\<^verbatim>\<open>list(d.keys())\<close> and iteration over \<^verbatim>\<open>d\<close>.\<close>

definition dict_keys :: "pydict \<Rightarrow> string list" where
  "dict_keys d = map fst d"


text \<open>\<^verbatim>\<open>xs[0]\<close> and \<^verbatim>\<open>xs[-1]\<close> raise \<^verbatim>\<open>IndexError\<close> on an empty list.\<close>

definition index_first :: "'a list \<Rightarrow> error + 'a" where
  "index_first xs = (case xs of [] \<Rightarrow> Inl IndexError | x # _ \<Rightarrow> Inr x)"

definition index_last :: "'a list \<Rightarrow> error + 'a" where
  "index_last xs = (if xs = [] then Inl IndexError else Inr (last xs))"

subsection \<open>\<^verbatim>\<open>str\<close> and \<^verbatim>\<open>repr\<close>\<close>

definition digit_char :: "nat \<Rightarrow> char" where
  "digit_char d = ''0123456789'' ! d"

fun str_nat :: "nat \<Rightarrow> string" where
  "str_nat n = (if n < 10 then [digit_char n] else str_nat (n div 10) @ [digit_char (n mod 10)])"

definition str_int :: "int \<Rightarrow> string" where
  "str_int i = (if i < 0 then CHR ''-'' # str_nat (nat (- i)) else str_nat (nat i))"

definition hex_char :: "nat \<Rightarrow> char" where
  "hex_char d = ''0123456789abcdef'' ! d"

text \<open>
  One character of \<^verbatim>\<open>repr\<close> of a string, inside the quote character \<open>q\<close>: the quote and
  the backslash are escaped, tab, newline and carriage return have their letters, other
  control characters are \<^verbatim>\<open>\xNN\<close>.  Bytes from 0x80 on stand for the UTF-8 encoding of
  printable characters and are kept.
\<close>

definition repr_char :: "char \<Rightarrow> char \<Rightarrow> string" where
  "repr_char q c =
     (if c = q \<or> c = CHR 0x5C then [CHR 0x5C, c]
      else if c = CHR 0x09 then [CHR 0x5C, CHR ''t'']
      else if c = CHR 0x0A then [CHR 0x5C, CHR ''n'']
      else if c = CHR 0x0D then [CHR 0x5C, CHR ''r'']
      else if of_char c < (32::nat) \<or> c = CHR 0x7F
        then [CHR 0x5C, CHR ''x'', hex_char (of_char c div 16), hex_char (of_char c mod 16)]
      else [c])"

text \<open>Python quotes with \<^verbatim>\<open>'\<close> unless the string has a \<^verbatim>\<open>'\<close> and no \<^verbatim>\<open>"\<close>.\<close>

definition repr_str :: "string \<Rightarrow> string" where
  "repr_str s =
     (let q = (if CHR 0x27 \<in> set s \<and> CHR 0x22 \<notin> set s then CHR 0x22 else CHR 0x27)
      in q # concat (map (repr_char q) s) @ [q])"

fun py_repr :: "pyval \<Rightarrow> string"
  and repr_elems :: "pyval list \<Rightarrow> string"
  and repr_items :: "(string \<times> pyval) list \<Rightarrow> string" where
  "py_repr PNone = ''None''"
| "py_repr (PBool b) = (if b then ''True'' else ''False'')"
| "py_repr (PInt i) = str_int i"
| "py_repr (PFloat s) = s"
| "py_repr (PStr s) = repr_str s"
| "py_repr (PList xs) = ''['' @ repr_elems xs @ '']''"
| "py_repr (PDict kvs) = ''{'' @ repr_items kvs @ ''}''"
| "py_repr (PObj s r) = r"
| "repr_elems [] = []"
| "repr_elems [x] = py_repr x"
| "repr_elems (x # y # ys) = py_repr x @ '', '' @ repr_elems (y # ys)"
| "repr_items [] = []"
| "repr_items [(k, v)] = repr_str k @ '': '' @ py_repr v"
| "repr_items ((k, v) # p # ps) = repr_str k @ '': '' @ py_repr v @ '', '' @ repr_items (p # ps)"

text \<open>\<^verbatim>\<open>str(v)\<close>, which is also what an f-string field \<^verbatim>\<open>{v}\<close> inserts.\<close>

fun py_str :: "pyval \<Rightarrow> string" where
  "py_str (PStr s) = s"
| "py_str (PObj s r) = s"
| "py_str v = py_repr v"

text \<open>\<^verbatim>\<open>str(e)\<close> of an exception, as \<^verbatim>\<open>print(f"Error: {e}")\<close> shows it.\<close>

fun str_error :: "error \<Rightarrow> string" where
  "str_error (KeyError k) = repr_str k"
| "str_error IndexError = ''list index out of range''"
| "str_error (TypeError m) = m"
| "str_error (LibraryError m) = m"

text \<open>\<^verbatim>\<open>s.lower()\<close> on the ASCII letters; other bytes are kept.\<close>

definition lower_char :: "char \<Rightarrow> char" where
  "lower_char c =
     (case map_of (zip ''ABCDEFGHIJKLMNOPQRSTUVWXYZ'' ''abcdefghijklmnopqrstuvwxyz'') c of
        Some l \<Rightarrow> l
      | None \<Rightarrow> c)"

definition str_lower :: "string \<Rightarrow> string" where
  "str_lower s = map lower_char s"

section \<open>Paths\<close>

text \<open>\<^verbatim>\<open>os.path.basename\<close> (posixpath): everything after the last \<^verbatim>\<open>/\<close>.\<close>

definition basename :: "string \<Rightarrow> string" where
  "basename p = rev (takeWhile (\<lambda>c. c \<noteq> CHR ''/'') (rev p))"

text \<open>\<^verbatim>\<open>os.path.join(a, b)\<close> (posixpath) for two components.\<close>

definition path_join :: "string \<Rightarrow> string \<Rightarrow> string" where
  "path_join a b =
     (if b \<noteq> [] \<and> hd b = CHR ''/'' then b
      else if a = [] \<or> last a = CHR ''/'' then a @ b
      else a @ ''/'' @ b)"

text \<open>
  \<^verbatim>\<open>os.path.splitext(p)[1]\<close> (posixpath): the extension starts at the last dot of the last
  path component, leading dots of that component not counting; it is empty when there is
  no such dot.
\<close>

definition splitext_ext :: "string \<Rightarrow> string" where
  "splitext_ext p =
     (let body = dropWhile (\<lambda>c. c = CHR ''.'') (basename p)
      in if CHR ''.'' \<in> set body
         then CHR ''.'' # rev (takeWhile (\<lambda>c. c \<noteq> CHR ''.'') (rev body))
         else [])"

section \<open>The libraries' objects\<close>

subsection \<open>The table that \<^verbatim>\<open>pandas.read_csv\<close> returns\<close>

text \<open>
  A column is numeric (selected by \<^verbatim>\<open>select_dtypes(include='number')\<close>), with its
  \<^verbatim>\<open>mean()\<close>, \<^verbatim>\<open>min()\<close> and \<^verbatim>\<open>max()\<close>, or it is not, with its \<^verbatim>\<open>min()\<close> and \<^verbatim>\<open>max()\<close>,
  which pandas computes by comparing the cells and which raise \<^verbatim>\<open>TypeError\<close> when
  the cells do not compare (text next to a missing value).
\<close>

datatype column =
    NumCol pyval pyval pyval
  | ObjCol "error + pyval" "error + pyval"

fun series_mean :: "column \<Rightarrow> error + pyval" where
  "series_mean (NumCol mean lo hi) = Inr mean"
| "series_mean (ObjCol lo hi) = Inl (TypeError ''Could not convert to numeric'')"

fun series_min :: "column \<Rightarrow> error + pyval" where
  "series_min (NumCol mean lo hi) = Inr lo"
| "series_min (ObjCol lo hi) = lo"

fun series_max :: "column \<Rightarrow> error + pyval" where
  "series_max (NumCol mean lo hi) = Inr hi"
| "series_max (ObjCol lo hi) = hi"

fun is_number :: "column \<Rightarrow> bool" where
  "is_number (NumCol mean lo hi) = True"
| "is_number (ObjCol lo hi) = False"

text \<open>
  The frame: its columns by name, in order, and its rows as \<^verbatim>\<open>to_dict(orient='records')\<close>
  gives them.
\<close>

record frame =
  cols :: "(string \<times> column) list"
  rows :: "pydict list"

text \<open>\<^verbatim>\<open>list(df.columns)\<close>.\<close>

definition columns :: "frame \<Rightarrow> string list" where
  "columns df = map fst (cols df)"

text \<open>\<^verbatim>\<open>df.select_dtypes(include='number').columns\<close>.\<close>

definition numeric_cols :: "frame \<Rightarrow> string list" where
  "numeric_cols df = map fst (filter (\<lambda>(name, c). is_number c) (cols df))"

text \<open>\<^verbatim>\<open>df[col]\<close>.\<close>

definition frame_col :: "frame \<Rightarrow> string \<Rightarrow> error + column" where
  "frame_col df col = (case map_of (cols df) col of None \<Rightarrow> Inl (KeyError col) | Some c \<Rightarrow> Inr c)"

subsection \<open>The track that \<^verbatim>\<open>gpxpy.parse\<close> returns\<close>

text \<open>
  A point's \<^verbatim>\<open>extensions\<close> is a list of XML elements; iterating an element yields its
  children, each with a \<^verbatim>\<open>tag\<close> and a \<^verbatim>\<open>text\<close>.
\<close>

record gpx_point =
  time :: pyval
  latitude :: pyval
  longitude :: pyval
  elevation :: pyval
  extensions :: "(string \<times> pyval) list list"

record gpx_segment =
  points :: "gpx_point list"

record gpx_track =
  segments :: "gpx_segment list"

record gpx =
  tracks :: "gpx_track list"

subsection \<open>The messages that \<^verbatim>\<open>fitparse\<close> decodes\<close>

text \<open>
  \<^verbatim>\<open>fitparse.FitFile(path).get_messages('record')\<close> is the list of decoded messages of
  type \<^verbatim>\<open>record\<close>; iterating one message yields its fields, each with a \<^verbatim>\<open>name\<close> and a
  \<^verbatim>\<open>value\<close>.
\<close>

type_synonym fit_message = "(string \<times> pyval) list"

subsection \<open>The stream that \<^verbatim>\<open>ollama.chat\<close> returns\<close>

record chat_message =
  content :: "string option"

record chunk =
  response :: "string option"
  message :: "chat_message option"

text \<open>
  Iterating the stream yields chunks until it ends or raises; what follows a \<open>Raise\<close> is
  never seen.
\<close>

datatype stream_item = Chunk chunk | Raise error

subsection \<open>The clock\<close>

record datetime =
  year :: nat
  month :: nat
  day :: nat
  hour :: nat
  minute :: nat
  second :: nat

definition zfill :: "nat \<Rightarrow> string \<Rightarrow> string" where
  "zfill n s = replicate (n - length s) CHR ''0'' @ s"

text \<open>\<^verbatim>\<open>strftime('%Y-%m-%d')\<close>.\<close>

definition strftime_ymd :: "datetime \<Rightarrow> string" where
  "strftime_ymd d =
     zfill 4 (str_nat (year d)) @ ''-'' @ zfill 2 (str_nat (month d)) @ ''-'' @ zfill 2 (str_nat (day d))"

subsection \<open>The world outside the script\<close>

text \<open>
  What the script reads from outside: the names in a directory, what each parser returns
  (or raises) for a path, what the model service streams for a model name and a list of
  messages (role, content), and the clock.
\<close>

record world =
  listdir :: "string \<Rightarrow> string list"
  read_csv :: "string \<Rightarrow> error + frame"
  gpx_parse :: "string \<Rightarrow> error + gpx"
  fit_messages :: "string \<Rightarrow> error + fit_message list"
  ollama_chat :: "string \<Rightarrow> (string \<times> string) list \<Rightarrow> error + stream_item list"
  now :: datetime

section \<open>The summarizers\<close>

subsection \<open>\<^verbatim>\<open>summarize_csv\<close>\<close>

text \<open>The loop over the numeric columns, each stored under its own name.\<close>

fun numeric_loop :: "frame \<Rightarrow> pydict \<Rightarrow> string list \<Rightarrow> error + pydict" where
  "numeric_loop df summary [] = Inr summary"
| "numeric_loop df summary (col # cs) =
     bindE (frame_col df col) (\<lambda>c.
     bindE (series_mean c) (\<lambda>mean.
     bindE (series_min c) (\<lambda>lo.
     bindE (series_max c) (\<lambda>hi.
       numeric_loop df
         (dict_set summary col (PDict [(''mean'', mean), (''min'', lo), (''max'', hi)])) cs))))"

definition date_range :: "frame \<Rightarrow> error + pyval" where
  "date_range df =
     (if ''Date'' \<in> set (columns df)
      then bindE (frame_col df ''Date'') (\<lambda>c.
           bindE (series_min c) (\<lambda>lo.
           bindE (series_max c) (\<lambda>hi.
             Inr (PStr (py_str lo @ '' to '' @ py_str hi)))))
      else Inr (PStr ''N/A''))"

definition summarize_csv :: "world \<Rightarrow> string \<Rightarrow> error + pydict" where
  "summarize_csv w file_path =
     bindE (read_csv w file_path) (\<lambda>df.
       let summary = [];
           summary = dict_set summary ''file'' (PStr (basename file_path));
           summary = dict_set summary ''total_records'' (PInt (int (length (rows df))));
           summary = dict_set summary ''columns'' (PList (map PStr (columns df)))
       in bindE (date_range df) (\<lambda>dr.
            let summary = dict_set summary ''date_range'' dr
            in bindE (numeric_loop df summary (numeric_cols df)) (\<lambda>summary.
                 Inr (dict_set summary ''sample'' (PList (map PDict (take 10 (rows df))))))))"

subsection \<open>\<^verbatim>\<open>summarize_gpx\<close>\<close>

text \<open>The loops over a point's extension elements and their children.\<close>

fun ext_children :: "pydict \<Rightarrow> (string \<times> pyval) list \<Rightarrow> pydict" where
  "ext_children pt [] = pt"
| "ext_children pt ((tag, text) # cs) =
     ext_children (if sublist ''hr'' (str_lower tag) then dict_set pt ''heart_rate'' text else pt) cs"

fun ext_loop :: "pydict \<Rightarrow> (string \<times> pyval) list list \<Rightarrow> pydict" where
  "ext_loop pt [] = pt"
| "ext_loop pt (ext # es) = ext_loop (ext_children pt ext) es"

definition point_dict :: "gpx_point \<Rightarrow> pydict" where
  "point_dict point =
     (let pt = [(''time'', time point), (''latitude'', latitude point),
                (''longitude'', longitude point), (''elevation'', elevation point)]
      in if extensions point \<noteq> [] then ext_loop pt (extensions point) else pt)"

definition gpx_points :: "gpx \<Rightarrow> pydict list" where
  "gpx_points g =
     concat (map (\<lambda>track. concat (map (\<lambda>segment. map point_dict (points segment))
                                      (segments track)))
                 (tracks g))"

definition summarize_gpx :: "world \<Rightarrow> string \<Rightarrow> error + pydict" where
  "summarize_gpx w file_path =
     bindE (gpx_parse w file_path) (\<lambda>g.
       let pts = gpx_points g in
       bindE (if pts \<noteq> []
              then bindE (index_first pts) (\<lambda>p. bindE (subscript p ''time'') (\<lambda>t. Inr (PStr (py_str t))))
              else Inr (PStr ''N/A'')) (\<lambda>start_time.
       bindE (if pts \<noteq> []
              then bindE (index_last pts) (\<lambda>p. bindE (subscript p ''time'') (\<lambda>t. Inr (PStr (py_str t))))
              else Inr (PStr ''N/A'')) (\<lambda>end_time.
         Inr [(''file'', PStr (basename file_path)),
              (''type'', PStr ''gpx''),
              (''total_points'', PInt (int (length pts))),
              (''start_time'', start_time),
              (''end_time'', end_time),
              (''sample_points'', PList (map PDict (take 10 pts)))])))"

subsection \<open>\<^verbatim>\<open>summarize_fit\<close>\<close>

text \<open>The inner loop \<^verbatim>\<open>for d in record: rec[d.name] = d.value\<close>.\<close>

fun fit_rec :: "pydict \<Rightarrow> fit_message \<Rightarrow> pydict" where
  "fit_rec rec [] = rec"
| "fit_rec rec ((name, val) # ds) = fit_rec (dict_set rec name val) ds"

definition summarize_fit :: "world \<Rightarrow> string \<Rightarrow> error + pydict" where
  "summarize_fit w file_path =
     bindE (fit_messages w file_path) (\<lambda>messages.
       let records = map (fit_rec []) messages in
       bindE (if records \<noteq> []
              then bindE (index_first records) (\<lambda>r. Inr (PList (map PStr (dict_keys r))))
              else Inr (PList [])) (\<lambda>fields.
         Inr [(''file'', PStr (basename file_path)),
              (''type'', PStr ''fit''),
              (''total_records'', PInt (int (length records))),
              (''fields'', fields),
              (''sample_records'', PList (map PDict (take 10 records)))]))"

section \<open>\<^verbatim>\<open>build_llm_prompt\<close>\<close>

text \<open>
  The loop \<^verbatim>\<open>for col in summary\<close> of the tabular branch: a line for every key whose
  value is a \<^verbatim>\<open>dict\<close>; its three subscripts raise \<^verbatim>\<open>KeyError\<close> when a key is missing.
\<close>

fun stats_loop :: "pydict \<Rightarrow> string \<Rightarrow> string list \<Rightarrow> error + string" where
  "stats_loop summary prompt [] = Inr prompt"
| "stats_loop summary prompt (col # cs) =
     bindE (subscript summary col) (\<lambda>v.
       case v of
         PDict d \<Rightarrow>
           bindE (subscript d ''mean'') (\<lambda>mean.
           bindE (subscript d ''min'') (\<lambda>lo.
           bindE (subscript d ''max'') (\<lambda>hi.
             stats_loop summary
               (prompt @ col @ '': mean='' @ py_str mean @ '', min='' @ py_str lo
                  @ '', max='' @ py_str hi @ ''\<newline>'') cs)))
       | _ \<Rightarrow> stats_loop summary prompt cs)"

text \<open>One pass of the loop over the summaries: the text added for one summary.\<close>

definition summary_block :: "string \<Rightarrow> pydict \<Rightarrow> error + string" where
  "summary_block prompt summary =
     bindE (subscript summary ''file'') (\<lambda>file.
       let prompt = prompt @ ''File: '' @ py_str file @ ''\<newline>'' in
       bindE
         (if dict_get summary ''type'' = Some (PStr ''gpx'') then
            bindE (subscript summary ''total_points'') (\<lambda>total_points.
            bindE (subscript summary ''start_time'') (\<lambda>start_time.
            bindE (subscript summary ''end_time'') (\<lambda>end_time.
            bindE (subscript summary ''sample_points'') (\<lambda>sample_points.
              Inr (prompt @ ''Type: GPX\<newline>Total Points: '' @ py_str total_points
                     @ ''\<newline>Start: '' @ py_str start_time
                     @ ''\<newline>End: '' @ py_str end_time
                     @ ''\<newline>Sample Points: '' @ py_str sample_points @ ''\<newline>'')))))
          else if dict_get summary ''type'' = Some (PStr ''fit'') then
            bindE (subscript summary ''total_records'') (\<lambda>total_records.
            bindE (subscript summary ''fields'') (\<lambda>fields.
            bindE (subscript summary ''sample_records'') (\<lambda>sample_records.
              Inr (prompt @ ''Type: FIT\<newline>Total Records: '' @ py_str total_records
                     @ ''\<newline>Fields: '' @ py_str fields
                     @ ''\<newline>Sample Records: '' @ py_str sample_records @ ''\<newline>''))))
          else
            bindE (subscript summary ''total_records'') (\<lambda>total_records.
              let prompt = prompt @ ''Total Records: '' @ py_str total_records @ ''\<newline>'' in
              bindE (subscript summary ''columns'') (\<lambda>cols.
                let prompt = prompt @ ''Columns: '' @ py_str cols @ ''\<newline>'' in
                bindE (subscript summary ''date_range'') (\<lambda>dr.
                  let prompt = prompt @ ''Date Range: '' @ py_str dr @ ''\<newline>'' in
                  bindE (stats_loop summary prompt (dict_keys summary)) (\<lambda>prompt.
                    bindE (subscript summary ''sample'') (\<lambda>sample.
                      Inr (prompt @ ''Sample Rows:\<newline>'' @ py_str sample @ ''\<newline>'')))))))
         (\<lambda>prompt. Inr (prompt @ ''\<newline>'' @ replicate 40 CHR ''='' @ ''\<newline>'')))"

fun summaries_loop :: "string \<Rightarrow> pydict list \<Rightarrow> error + string" where
  "summaries_loop prompt [] = Inr prompt"
| "summaries_loop prompt (summary # ss) =
     bindE (summary_block prompt summary) (\<lambda>prompt. summaries_loop prompt ss)"

definition default_analysis :: string where
  "default_analysis =
     ''Please provide a comprehensive analysis including:\<newline>1. Notable patterns or trends\<newline>2. Unusual findings\<newline>3. Actionable health insights\<newline>4. Areas for improvement\<newline>''"

text \<open>
  The first argument is what \<^verbatim>\<open>datetime.now()\<close> returns during the call.  A query that is
  \<^verbatim>\<open>None\<close> or empty is falsy and gives the default analysis request.
\<close>

definition build_llm_prompt :: "datetime \<Rightarrow> pydict list \<Rightarrow> string option \<Rightarrow> error + string" where
  "build_llm_prompt clock summaries user_query =
     (let today = strftime_ymd clock;
          prompt = ''Today's date is '' @ today
            @ ''. Always use this as the current date.\<newline>\<newline>Analyze this Apple Health CSV data and provide insights.\<newline>\<newline>''
      in bindE (summaries_loop prompt summaries) (\<lambda>prompt.
           case user_query of
             Some q \<Rightarrow>
               if q \<noteq> [] then Inr (prompt @ ''\<newline>User Query: '' @ q @ ''\<newline>'')
               else Inr (prompt @ default_analysis)
           | None \<Rightarrow> Inr (prompt @ default_analysis)))"

section \<open>\<^verbatim>\<open>query_ollama\<close>\<close>

text \<open>What the script does is a trace: what it prints, and which collaborators it calls.\<close>

datatype event =
    Stdout string
  | CallSummarizer string
  | CallModel string "(string \<times> string) list"

text \<open>
  \<^verbatim>\<open>chunk.get('response') or (chunk.get('message') or {}).get('content') or ''\<close>:
  \<^verbatim>\<open>None\<close> and the empty string are falsy.
\<close>

definition chunk_text :: "chunk \<Rightarrow> string" where
  "chunk_text c =
     (case response c of
        Some r \<Rightarrow> if r \<noteq> [] then r else
          (case message c of None \<Rightarrow> [] | Some m \<Rightarrow> (case content m of None \<Rightarrow> [] | Some t \<Rightarrow> t))
      | None \<Rightarrow>
          (case message c of None \<Rightarrow> [] | Some m \<Rightarrow> (case content m of None \<Rightarrow> [] | Some t \<Rightarrow> t)))"

text \<open>
  The body of \<^verbatim>\<open>try\<close>: the loop over the stream and the final \<^verbatim>\<open>print("\nDone.")\<close>.
  It gives the fragments collected and the events so far when the body is left, and the
  exception if it was left by one.
\<close>

fun stream_loop ::
  "stream_item list \<Rightarrow> string list \<Rightarrow> event list \<Rightarrow> string list \<times> event list \<times> error option" where
  "stream_loop [] collected ev = (collected, ev @ [Stdout ''\<newline>Done.\<newline>''], None)"
| "stream_loop (Raise e # rest) collected ev = (collected, ev, Some e)"
| "stream_loop (Chunk c # rest) collected ev =
     (let text = chunk_text c
      in if text \<noteq> [] then stream_loop rest (collected @ [text]) (ev @ [Stdout text])
         else stream_loop rest collected ev)"

definition system_instruction :: string where
  "system_instruction =
     ''You are a health data analyst. Provide detailed analysis and actionable insights.''"

text \<open>
  \<^verbatim>\<open>except Exception as e\<close> catches whatever left the body, prints it, and the function
  goes on to its \<^verbatim>\<open>return\<close>.
\<close>

definition query_ollama :: "world \<Rightarrow> string \<Rightarrow> string \<Rightarrow> event list \<times> string" where
  "query_ollama w prompt model =
     (let messages = [(''system'', system_instruction), (''user'', prompt)];
          ev = [Stdout ''Contacting Ollama...\<newline>'', CallModel model messages];
          (collected, ev, raised) =
            (case ollama_chat w model messages of
               Inl e \<Rightarrow> ([], ev, Some e)
             | Inr stream \<Rightarrow> stream_loop stream [] ev);
          ev = (case raised of
                  None \<Rightarrow> ev
                | Some e \<Rightarrow> ev @ [Stdout (''Error: '' @ str_error e @ ''\<newline>'')])
      in (ev, concat collected))"

section \<open>\<^verbatim>\<open>main\<close>\<close>

text \<open>
  \<^verbatim>\<open>glob.glob(os.path.join(d, '*' + ext))\<close> for a directory path \<open>d\<close> without glob
  metacharacters: the names in \<open>d\<close> that end in \<open>ext\<close> and do not start with a dot
  (\<^verbatim>\<open>*\<close> does not match hidden files), each joined to \<open>d\<close>.
\<close>

definition glob_star :: "world \<Rightarrow> string \<Rightarrow> string \<Rightarrow> string list" where
  "glob_star w d ext =
     map (path_join d)
       (filter (\<lambda>name. name \<noteq> [] \<and> hd name \<noteq> CHR ''.'' \<and> suffix ext name) (listdir w d))"

text \<open>The arguments after parsing; \<open>dir\<close> is \<^verbatim>\<open>os.path.abspath(args.dir)\<close>.\<close>

record args =
  dir :: string
  model :: string
  query :: "string option"

datatype status = Exit nat | Uncaught error

text \<open>The dispatch loop over the discovered files.\<close>

fun dispatch :: "world \<Rightarrow> string list \<Rightarrow> pydict list \<Rightarrow> event list \<Rightarrow> event list \<times> (error + pydict list)" where
  "dispatch w [] summaries ev = (ev, Inr summaries)"
| "dispatch w (f # fs) summaries ev =
     (let ext = str_lower (splitext_ext f) in
      if ext = ''.csv'' then
        (case summarize_csv w f of
           Inl e \<Rightarrow> (ev @ [CallSummarizer f], Inl e)
         | Inr s \<Rightarrow> dispatch w fs (summaries @ [s]) (ev @ [CallSummarizer f]))
      else if ext = ''.gpx'' then
        (case summarize_gpx w f of
           Inl e \<Rightarrow> (ev @ [CallSummarizer f], Inl e)
         | Inr s \<Rightarrow> dispatch w fs (summaries @ [s]) (ev @ [CallSummarizer f]))
      else if ext = ''.fit'' then
        (case summarize_fit w f of
           Inl e \<Rightarrow> (ev @ [CallSummarizer f], Inl e)
         | Inr s \<Rightarrow> dispatch w fs (summaries @ [s]) (ev @ [CallSummarizer f]))
      else dispatch w fs summaries (ev @ [Stdout (''Unsupported file type: '' @ f @ ''\<newline>'')]))"

definition data_files :: "world \<Rightarrow> string \<Rightarrow> string list" where
  "data_files w search_dir =
     glob_star w search_dir ''.csv'' @ glob_star w search_dir ''.gpx'' @ glob_star w search_dir ''.fit''"

text \<open>
  The run: its trace and how the process ends.  \<^verbatim>\<open>sys.exit(1)\<close> ends it with status 1,
  an uncaught exception ends it with a traceback, and falling off the end of \<^verbatim>\<open>main\<close>
  ends it with status 0.
\<close>

definition main :: "world \<Rightarrow> args \<Rightarrow> event list \<times> status" where
  "main w a =
     (let search_dir = dir a;
          files = data_files w search_dir
      in if files = [] then
           ([Stdout (''No .csv, .gpx, or .fit files found in '' @ search_dir @ ''.\<newline>'')], Exit 1)
         else
           (case dispatch w files [] [] of
              (ev, Inl e) \<Rightarrow> (ev, Uncaught e)
            | (ev, Inr summaries) \<Rightarrow>
                if summaries = [] then
                  (ev @ [Stdout ''No supported files to summarize.\<newline>''], Exit 1)
                else
                  (case build_llm_prompt (now w) summaries (query a) of
                     Inl e \<Rightarrow> (ev, Uncaught e)
                   | Inr prompt \<Rightarrow>
                       (let (ev', answer) = query_ollama w prompt (model a)
                        in (ev @ ev', Exit 0)))))"

section \<open>Notions used to state the properties\<close>





text \<open>The summarizer that belongs to a path by its ending.\<close>

definition summarize_file :: "world \<Rightarrow> string \<Rightarrow> error + pydict" where
  "summarize_file w f =
     (if suffix ''.csv'' f then summarize_csv w f
      else if suffix ''.gpx'' f then summarize_gpx w f
      else summarize_fit w f)"

text \<open>
  A path as discovery yields it: it ends in one of the three lowercase extensions, and
  \<^verbatim>\<open>os.path.splitext\<close> finds that extension.
\<close>

definition discovered :: "string \<Rightarrow> bool" where
  "discovered f \<longleftrightarrow>
     (splitext_ext f = ''.csv'' \<and> suffix ''.csv'' f)
     \<or> (splitext_ext f = ''.gpx'' \<and> suffix ''.gpx'' f)
     \<or> (splitext_ext f = ''.fit'' \<and> suffix ''.fit'' f)"

section \<open>Example inputs\<close>

text \<open>
  The table for the file
  \<^verbatim>\<open>Date,HR / 2024-01-01,60 / 2024-01-02,70 / 2024-01-03,65\<close>: a text column and an
  integer column with mean 65.0.
\<close>

definition hr_frame :: frame where
  "hr_frame =
     \<lparr> cols = [(''Date'', ObjCol (Inr (PStr ''2024-01-01'')) (Inr (PStr ''2024-01-03''))),
               (''HR'', NumCol (PFloat ''65.0'') (PInt 60) (PInt 70))],
       rows = [[(''Date'', PStr ''2024-01-01''), (''HR'', PInt 60)],
               [(''Date'', PStr ''2024-01-02''), (''HR'', PInt 70)],
               [(''Date'', PStr ''2024-01-03''), (''HR'', PInt 65)]] \<rparr>"

text \<open>The summary of that table when it is read from a file with a given base name.\<close>

definition hr_summary_of :: "string \<Rightarrow> pydict" where
  "hr_summary_of name =
     [(''file'', PStr name), (''total_records'', PInt 3),
      (''columns'', PList [PStr ''Date'', PStr ''HR'']),
      (''date_range'', PStr ''2024-01-01 to 2024-01-03''),
      (''HR'', PDict [(''mean'', PFloat ''65.0''), (''min'', PInt 60), (''max'', PInt 70)]),
      (''sample'', PList [PDict [(''Date'', PStr ''2024-01-01''), (''HR'', PInt 60)],
                         PDict [(''Date'', PStr ''2024-01-02''), (''HR'', PInt 70)],
                         PDict [(''Date'', PStr ''2024-01-03''), (''HR'', PInt 65)]])]"

definition hr_summary :: pydict where
  "hr_summary = hr_summary_of ''hr.csv''"


text \<open>The table for \<^verbatim>\<open>Steps,Source,Date / 4000,watch,2024-03-01 / 6000,phone,2024-03-02\<close>.\<close>

definition steps_frame :: frame where
  "steps_frame =
     \<lparr> cols = [(''Steps'', NumCol (PFloat ''5000.0'') (PInt 4000) (PInt 6000)),
               (''Source'', ObjCol (Inr (PStr ''phone'')) (Inr (PStr ''watch''))),
               (''Date'', ObjCol (Inr (PStr ''2024-03-01'')) (Inr (PStr ''2024-03-02'')))],
       rows = [[(''Steps'', PInt 4000), (''Source'', PStr ''watch''), (''Date'', PStr ''2024-03-01'')],
               [(''Steps'', PInt 6000), (''Source'', PStr ''phone''), (''Date'', PStr ''2024-03-02'')]] \<rparr>"

text \<open>
  The table for \<^verbatim>\<open>total_records,Source,Date / 1,watch,2024-03-01 / 3,phone,2024-03-02\<close>:
  a numeric column whose name is a key of the summary.
\<close>

definition clash_frame :: frame where
  "clash_frame =
     \<lparr> cols = [(''total_records'', NumCol (PFloat ''2.0'') (PInt 1) (PInt 3)),
               (''Source'', ObjCol (Inr (PStr ''phone'')) (Inr (PStr ''watch''))),
               (''Date'', ObjCol (Inr (PStr ''2024-03-01'')) (Inr (PStr ''2024-03-02'')))],
       rows = [[(''total_records'', PInt 1), (''Source'', PStr ''watch''), (''Date'', PStr ''2024-03-01'')],
               [(''total_records'', PInt 3), (''Source'', PStr ''phone''), (''Date'', PStr ''2024-03-02'')]] \<rparr>"

text \<open>The table for \<^verbatim>\<open>type,file / 1,2 / 3,4\<close>: two numeric columns.\<close>

definition typed_frame :: frame where
  "typed_frame =
     \<lparr> cols = [(''type'', NumCol (PFloat ''2.0'') (PInt 1) (PInt 3)),
               (''file'', NumCol (PFloat ''3.0'') (PInt 2) (PInt 4))],
       rows = [[(''type'', PInt 1), (''file'', PInt 2)],
               [(''type'', PInt 3), (''file'', PInt 4)]] \<rparr>"


text \<open>A track file with one track of one segment without points.\<close>

definition empty_gpx :: gpx where
  "empty_gpx = \<lparr> tracks = [\<lparr> segments = [\<lparr> points = [] \<rparr>] \<rparr>] \<rparr>"

text \<open>Two moments of the same day.\<close>

definition morning :: datetime where
  "morning = \<lparr> year = 2024, month = 2, day = 9, hour = 7, minute = 30, second = 0 \<rparr>"

definition evening :: datetime where
  "evening = \<lparr> year = 2024, month = 2, day = 9, hour = 21, minute = 5, second = 42 \<rparr>"

text \<open>
  A model stream that delivers a fragment, an empty one and another fragment, then breaks.
\<close>

definition broken_stream :: "stream_item list" where
  "broken_stream =
     [Chunk \<lparr> response = None, message = Some \<lparr> content = Some ''Heart '' \<rparr> \<rparr>,
      Chunk \<lparr> response = None, message = Some \<lparr> content = Some [] \<rparr> \<rparr>,
      Chunk \<lparr> response = Some ''rate'', message = None \<rparr>,
      Raise (LibraryError ''connection reset''),
      Chunk \<lparr> response = None, message = Some \<lparr> content = Some '' is steady.'' \<rparr> \<rparr>]"

text \<open>
  A world with three directories: \<^verbatim>\<open>/data\<close> holds the heart-rate file only, \<^verbatim>\<open>/mixed\<close>
  holds one file of each kind and a text file, \<^verbatim>\<open>/other\<close> holds nothing that the patterns
  match.  The service has one model, whose stream breaks.
\<close>

definition demo_world :: world where
  "demo_world =
     \<lparr> listdir = (\<lambda>d. if d = ''/data'' then [''hr.csv'']
                       else if d = ''/mixed'' then [''hr.csv'', ''notes.txt'', ''run.gpx'', ''ride.fit'']
                       else if d = ''/other'' then [''notes.txt'', ''RUN.GPX'', ''.hidden.csv'', ''csv'']
                       else []),
       read_csv = (\<lambda>p. if p = ''/data/hr.csv'' \<or> p = ''/mixed/hr.csv'' then Inr hr_frame
                        else if p = ''/data/steps.csv'' then Inr steps_frame
                        else if p = ''/data/clash.csv'' then Inr clash_frame
                        else if p = ''/data/typed.csv'' then Inr typed_frame
                        else Inl (LibraryError ''No such file or directory'')),
       gpx_parse = (\<lambda>p. if p = ''/mixed/run.gpx'' then Inr empty_gpx
                         else Inl (LibraryError ''No such file or directory'')),
       fit_messages = (\<lambda>p. if p = ''/mixed/ride.fit'' then Inr []
                            else Inl (LibraryError ''No such file or directory'')),
       ollama_chat = (\<lambda>m ms. if m = ''deepseek-r1'' then Inr broken_stream
                              else Inl (LibraryError ''model not found'')),
       now = morning \<rparr>"

section \<open>Properties\<close>

subsection \<open>Dictionaries and the error monad\<close>

lemma bindE_simps [simp]: "bindE (Inr x) f = f x" "bindE (Inl e) f = Inl e"
  by (simp_all add: bindE_def)

lemma bindE_Inr_iff: "bindE m f = Inr y \<longleftrightarrow> (\<exists>x. m = Inr x \<and> f x = Inr y)"
  by (cases m) simp_all

lemma map_of_dict_set: "map_of (dict_set d k v) = (map_of d)(k \<mapsto> v)"
  by (induction d) (auto simp: fun_eq_iff)

lemma keys_dict_set:
  "map fst (dict_set d k v) = (if k \<in> fst ` set d then map fst d else map fst d @ [k])"
  by (induction d) auto

lemma distinct_dict_set: "distinct (map fst d) \<Longrightarrow> distinct (map fst (dict_set d k v))"
  by (simp add: keys_dict_set)

lemma subscript_dict_set:
  "subscript (dict_set d k v) k' = (if k' = k then Inr v else subscript d k')"
  by (simp add: subscript_def map_of_dict_set)

subsection \<open>The summarizers on empty inputs\<close>

text \<open>
  C3.  A track file that \<^verbatim>\<open>gpxpy\<close> parses and whose segments hold no point:
  \<^verbatim>\<open>summarize_gpx\<close> returns (no exception, so the empty list is not indexed) a summary
  with \<^verbatim>\<open>total_points\<close> 0 and with \<^verbatim>\<open>start_time\<close> and \<^verbatim>\<open>end_time\<close> the string \<^verbatim>\<open>N/A\<close>.
\<close>

theorem summarize_gpx_no_points:
  assumes "gpx_parse w file_path = Inr g"
    and "\<forall>t \<in> set (tracks g). \<forall>s \<in> set (segments t). points s = []"
  shows "\<exists>s. summarize_gpx w file_path = Inr s
     \<and> subscript s ''total_points'' = Inr (PInt 0)
     \<and> subscript s ''start_time'' = Inr (PStr ''N/A'')
     \<and> subscript s ''end_time'' = Inr (PStr ''N/A'')"
proof -
  have "gpx_points g = []"
    using assms(2) by (simp add: gpx_points_def)
  then show ?thesis
    using assms(1) by (simp add: summarize_gpx_def subscript_def)
qed

theorem summarize_gpx_no_points_witness:
  "gpx_parse demo_world ''/mixed/run.gpx'' = Inr empty_gpx
   \<and> (\<exists>s. summarize_gpx demo_world ''/mixed/run.gpx'' = Inr s
     \<and> subscript s ''total_points'' = Inr (PInt 0)
     \<and> subscript s ''start_time'' = Inr (PStr ''N/A'')
     \<and> subscript s ''end_time'' = Inr (PStr ''N/A''))"
  using summarize_gpx_no_points [of demo_world "''/mixed/run.gpx''" empty_gpx]
  by (simp add: demo_world_def empty_gpx_def)

text \<open>
  C4.  A fitness file that \<^verbatim>\<open>fitparse\<close> decodes and that has no message of type
  \<^verbatim>\<open>record\<close>: \<^verbatim>\<open>summarize_fit\<close> returns a summary whose \<^verbatim>\<open>total_records\<close> is 0, whose
  \<^verbatim>\<open>fields\<close> is present and is the empty list, and whose \<^verbatim>\<open>sample_records\<close> is the
  empty list.
\<close>

theorem summarize_fit_no_records:
  assumes "fit_messages w file_path = Inr []"
  shows "\<exists>s. summarize_fit w file_path = Inr s
     \<and> subscript s ''total_records'' = Inr (PInt 0)
     \<and> subscript s ''fields'' = Inr (PList [])
     \<and> subscript s ''sample_records'' = Inr (PList [])"
  using assms by (simp add: summarize_fit_def subscript_def)

theorem summarize_fit_no_records_witness:
  "fit_messages demo_world ''/mixed/ride.fit'' = Inr []
   \<and> (\<exists>s. summarize_fit demo_world ''/mixed/ride.fit'' = Inr s
     \<and> subscript s ''total_records'' = Inr (PInt 0)
     \<and> subscript s ''fields'' = Inr (PList [])
     \<and> subscript s ''sample_records'' = Inr (PList []))"
  using summarize_fit_no_records [of demo_world "''/mixed/ride.fit''"]
  by (simp add: demo_world_def)

subsection \<open>\<^verbatim>\<open>summarize_csv\<close>\<close>

lemma numeric_loop_other:
  "numeric_loop df s cs = Inr s' \<Longrightarrow> k \<notin> set cs \<Longrightarrow> map_of s' k = map_of s k"
proof (induction cs arbitrary: s)
  case Nil
  then show ?case by simp
next
  case (Cons col cs)
  from Cons.prems(1) obtain v where "numeric_loop df (dict_set s col v) cs = Inr s'"
    by (auto simp: bindE_Inr_iff)
  with Cons.IH [of "dict_set s col v"] Cons.prems(2) show ?case
    by (simp add: map_of_dict_set)
qed

lemma numeric_loop_stats:
  "numeric_loop df s cs = Inr s' \<Longrightarrow> k \<in> set cs \<Longrightarrow>
     \<exists>c mean lo hi. frame_col df k = Inr c \<and> series_mean c = Inr mean
        \<and> series_min c = Inr lo \<and> series_max c = Inr hi
        \<and> map_of s' k = Some (PDict [(''mean'', mean), (''min'', lo), (''max'', hi)])"
proof (induction cs arbitrary: s)
  case Nil
  then show ?case by simp
next
  case (Cons col cs)
  from Cons.prems(1) obtain c mean lo hi where
    c: "frame_col df col = Inr c" "series_mean c = Inr mean" "series_min c = Inr lo"
      "series_max c = Inr hi" and
    rest: "numeric_loop df (dict_set s col (PDict [(''mean'', mean), (''min'', lo), (''max'', hi)])) cs = Inr s'"
    by (auto simp: bindE_Inr_iff)
  show ?case
  proof (cases "k \<in> set cs")
    case True
    with Cons.IH [OF rest] show ?thesis by simp
  next
    case False
    with Cons.prems(2) have "k = col" by simp
    with numeric_loop_other [OF rest False] c show ?thesis
      by (simp add: map_of_dict_set)
  qed
qed

lemma frame_col_numeric:
  assumes "distinct (columns df)" and "col \<in> set (numeric_cols df)"
  shows "\<exists>mean lo hi. frame_col df col = Inr (NumCol mean lo hi)"
proof -
  from assms(2) obtain c where c: "(col, c) \<in> set (cols df)" "is_number c"
    by (auto simp: numeric_cols_def)
  from assms(1) c(1) have "map_of (cols df) col = Some c"
    by (simp add: columns_def)
  with c(2) show ?thesis
    by (cases c) (simp_all add: frame_col_def)
qed

lemma numeric_loop_returns:
  assumes "distinct (columns df)"
  shows "set cs \<subseteq> set (numeric_cols df) \<Longrightarrow> \<exists>s'. numeric_loop df s cs = Inr s'"
proof (induction cs arbitrary: s)
  case Nil
  then show ?case by simp
next
  case (Cons col cs)
  then obtain mean lo hi where "frame_col df col = Inr (NumCol mean lo hi)"
    using frame_col_numeric [OF assms, of col] by auto
  with Cons show ?case by simp
qed

lemma numeric_col_member:
  "(A, NumCol mean lo hi) \<in> set (cols df) \<Longrightarrow> A \<in> set (numeric_cols df)"
  by (force simp: numeric_cols_def)

lemma date_range_returns:
  assumes "\<forall>c. map_of (cols df) ''Date'' = Some c \<longrightarrow> (\<exists>lo hi. series_min c = Inr lo \<and> series_max c = Inr hi)"
  shows "\<exists>dr. date_range df = Inr dr
     \<and> (''Date'' \<notin> set (columns df) \<longrightarrow> dr = PStr ''N/A'')
     \<and> (\<forall>c lo hi. map_of (cols df) ''Date'' = Some c \<and> series_min c = Inr lo \<and> series_max c = Inr hi
            \<longrightarrow> dr = PStr (py_str lo @ '' to '' @ py_str hi))"
proof (cases "''Date'' \<in> set (columns df)")
  case True
  then obtain c where c: "map_of (cols df) ''Date'' = Some c"
    by (metis columns_def image_set map_of_eq_None_iff not_Some_eq)
  with assms obtain lo hi where "series_min c = Inr lo" "series_max c = Inr hi"
    by blast
  with True c show ?thesis
    by (simp add: date_range_def frame_col_def)
next
  case False
  then have "map_of (cols df) ''Date'' = None"
    by (simp add: columns_def map_of_eq_None_iff)
  with False show ?thesis
    by (simp add: date_range_def)
qed

text \<open>
  C1 (as amended).  For a file that pandas parses into a table with distinct column names
  whose \<^verbatim>\<open>Date\<close> column, if there is one, has a minimum and a maximum, \<^verbatim>\<open>summarize_csv\<close>
  returns a summary in which
  \<^item> \<^verbatim>\<open>total_records\<close> is the number of rows, unless a numeric column is named
    \<^verbatim>\<open>total_records\<close>;
  \<^item> \<^verbatim>\<open>columns\<close> is the list of column names in order, unless a numeric column is named
    \<^verbatim>\<open>columns\<close>;
  \<^item> \<^verbatim>\<open>date_range\<close> is \<^verbatim>\<open>N/A\<close> when no column is named \<^verbatim>\<open>Date\<close> and is
    \<^verbatim>\<open><min> to <max>\<close> of that column otherwise, unless a numeric column is named
    \<^verbatim>\<open>date_range\<close>;
  \<^item> the entry under every numeric column \<open>A\<close> other than \<^verbatim>\<open>sample\<close> is the mapping of
    \<^verbatim>\<open>mean\<close>, \<^verbatim>\<open>min\<close>, \<^verbatim>\<open>max\<close> to that column's statistics.
\<close>

theorem summarize_csv_summary:
  assumes "read_csv w file_path = Inr df"
    and "distinct (columns df)"
    and "\<forall>c. map_of (cols df) ''Date'' = Some c \<longrightarrow> (\<exists>lo hi. series_min c = Inr lo \<and> series_max c = Inr hi)"
  shows "\<exists>s. summarize_csv w file_path = Inr s
    \<and> (''total_records'' \<notin> set (numeric_cols df)
         \<longrightarrow> subscript s ''total_records'' = Inr (PInt (int (length (rows df)))))
    \<and> (''columns'' \<notin> set (numeric_cols df)
         \<longrightarrow> subscript s ''columns'' = Inr (PList (map PStr (columns df))))
    \<and> (''date_range'' \<notin> set (numeric_cols df)
         \<longrightarrow> (''Date'' \<notin> set (columns df) \<longrightarrow> subscript s ''date_range'' = Inr (PStr ''N/A''))
           \<and> (\<forall>c lo hi. map_of (cols df) ''Date'' = Some c \<and> series_min c = Inr lo \<and> series_max c = Inr hi
                 \<longrightarrow> subscript s ''date_range'' = Inr (PStr (py_str lo @ '' to '' @ py_str hi))))
    \<and> (\<forall>A mean lo hi. (A, NumCol mean lo hi) \<in> set (cols df) \<and> A \<noteq> ''sample''
         \<longrightarrow> subscript s A = Inr (PDict [(''mean'', mean), (''min'', lo), (''max'', hi)]))"
proof -
  define s0 where "s0 = dict_set (dict_set (dict_set [] ''file'' (PStr (basename file_path)))
      ''total_records'' (PInt (int (length (rows df))))) ''columns'' (PList (map PStr (columns df)))"
  obtain dr where dr: "date_range df = Inr dr"
    and na: "''Date'' \<notin> set (columns df) \<longrightarrow> dr = PStr ''N/A''"
    and range: "\<forall>c lo hi. map_of (cols df) ''Date'' = Some c \<and> series_min c = Inr lo \<and> series_max c = Inr hi
            \<longrightarrow> dr = PStr (py_str lo @ '' to '' @ py_str hi)"
    using date_range_returns [OF assms(3)] by blast
  define s1 where "s1 = dict_set s0 ''date_range'' dr"
  obtain s2 where s2: "numeric_loop df s1 (numeric_cols df) = Inr s2"
    using numeric_loop_returns [OF assms(2), of "numeric_cols df" s1] by auto
  define s where "s = dict_set s2 ''sample'' (PList (map PDict (take 10 (rows df))))"
  have run: "summarize_csv w file_path = Inr s"
    using assms(1) dr s2 by (simp add: summarize_csv_def s_def s1_def s0_def)
  have other: "subscript s k = subscript s1 k" if "k \<notin> set (numeric_cols df)" "k \<noteq> ''sample''" for k
    using numeric_loop_other [OF s2 that(1)] that(2)
    by (simp add: s_def subscript_def map_of_dict_set)
  have tr: "subscript s1 ''total_records'' = Inr (PInt (int (length (rows df))))"
    by (simp add: s1_def s0_def subscript_def)
  have cl: "subscript s1 ''columns'' = Inr (PList (map PStr (columns df)))"
    by (simp add: s1_def s0_def subscript_def)
  have dt: "subscript s1 ''date_range'' = Inr dr"
    by (simp add: s1_def subscript_dict_set)
  have stats: "subscript s A = Inr (PDict [(''mean'', mean), (''min'', lo), (''max'', hi)])"
    if "(A, NumCol mean lo hi) \<in> set (cols df)" "A \<noteq> ''sample''" for A mean lo hi
  proof -
    from that(1) have A: "A \<in> set (numeric_cols df)"
      by (rule numeric_col_member)
    from assms(2) that(1) have "frame_col df A = Inr (NumCol mean lo hi)"
      by (simp add: frame_col_def columns_def)
    with numeric_loop_stats [OF s2 A] that(2) show ?thesis
      by (auto simp: s_def subscript_def map_of_dict_set)
  qed
  show ?thesis
    using run other [of "''total_records''"] other [of "''columns''"] other [of "''date_range''"]
      tr cl dt na range stats
    by (intro exI [of _ s]) auto
qed

text \<open>The instance with the columns \<^verbatim>\<open>[Steps, Source, Date]\<close> and two rows.\<close>

theorem summarize_csv_summary_witness:
  "read_csv demo_world ''/data/steps.csv'' = Inr steps_frame
   \<and> columns steps_frame = [''Steps'', ''Source'', ''Date'']
   \<and> length (rows steps_frame) = 2
   \<and> (\<exists>s. summarize_csv demo_world ''/data/steps.csv'' = Inr s
        \<and> subscript s ''total_records'' = Inr (PInt 2)
        \<and> subscript s ''columns'' = Inr (PList [PStr ''Steps'', PStr ''Source'', PStr ''Date''])
        \<and> subscript s ''date_range'' = Inr (PStr ''2024-03-01 to 2024-03-02'')
        \<and> subscript s ''Steps''
            = Inr (PDict [(''mean'', PFloat ''5000.0''), (''min'', PInt 4000), (''max'', PInt 6000)]))"
proof -
  have 1: "read_csv demo_world ''/data/steps.csv'' = Inr steps_frame"
    by (simp add: demo_world_def)
  have 2: "distinct (columns steps_frame)"
    by (simp add: columns_def steps_frame_def)
  have 3: "\<forall>c. map_of (cols steps_frame) ''Date'' = Some c
             \<longrightarrow> (\<exists>lo hi. series_min c = Inr lo \<and> series_max c = Inr hi)"
    by (simp add: steps_frame_def)
  have 4: "numeric_cols steps_frame = [''Steps'']"
    by (simp add: numeric_cols_def steps_frame_def)
  have 5: "columns steps_frame = [''Steps'', ''Source'', ''Date'']"
    by (simp add: columns_def steps_frame_def)
  have 6: "map_of (cols steps_frame) ''Date''
             = Some (ObjCol (Inr (PStr ''2024-03-01'')) (Inr (PStr ''2024-03-02'')))"
    by (simp add: steps_frame_def)
  have 7: "(''Steps'', NumCol (PFloat ''5000.0'') (PInt 4000) (PInt 6000)) \<in> set (cols steps_frame)"
    by (simp add: steps_frame_def)
  have 8: "length (rows steps_frame) = 2"
    by (simp add: steps_frame_def)
  from summarize_csv_summary [OF 1 2 3] obtain s where
    "summarize_csv demo_world ''/data/steps.csv'' = Inr s"
    "subscript s ''total_records'' = Inr (PInt 2)"
    "subscript s ''columns'' = Inr (PList [PStr ''Steps'', PStr ''Source'', PStr ''Date''])"
    "subscript s ''date_range'' = Inr (PStr ''2024-03-01 to 2024-03-02'')"
    "subscript s ''Steps''
            = Inr (PDict [(''mean'', PFloat ''5000.0''), (''min'', PInt 4000), (''max'', PInt 6000)])"
    unfolding 4 5 8 using 6 7 by fastforce
  with 1 5 8 show ?thesis by blast
qed

text \<open>
  C1 as stated fails: with the columns \<^verbatim>\<open>[total_records, Source, Date]\<close>, the first
  numeric, and two rows, the loop over the numeric columns stores the statistics under
  the key \<^verbatim>\<open>total_records\<close>, over the row count 2.
\<close>

theorem summarize_csv_total_records_counterexample:
  "read_csv demo_world ''/data/clash.csv'' = Inr clash_frame
   \<and> columns clash_frame = [''total_records'', ''Source'', ''Date'']
   \<and> length (rows clash_frame) = 2
   \<and> summarize_csv demo_world ''/data/clash.csv'' =
       Inr [(''file'', PStr ''clash.csv''),
            (''total_records'', PDict [(''mean'', PFloat ''2.0''), (''min'', PInt 1), (''max'', PInt 3)]),
            (''columns'', PList [PStr ''total_records'', PStr ''Source'', PStr ''Date'']),
            (''date_range'', PStr ''2024-03-01 to 2024-03-02''),
            (''sample'', PList [PDict [(''total_records'', PInt 1), (''Source'', PStr ''watch''), (''Date'', PStr ''2024-03-01'')],
                               PDict [(''total_records'', PInt 3), (''Source'', PStr ''phone''), (''Date'', PStr ''2024-03-02'')]])]"
  by (simp add: demo_world_def clash_frame_def summarize_csv_def columns_def numeric_cols_def
      date_range_def frame_col_def basename_def)

subsection \<open>The keys \<^verbatim>\<open>file\<close> and \<^verbatim>\<open>type\<close>\<close>

lemma gpx_file_type:
  "summarize_gpx w p = Inr s \<Longrightarrow>
     subscript s ''file'' = Inr (PStr (basename p)) \<and> subscript s ''type'' = Inr (PStr ''gpx'')"
  by (auto simp: summarize_gpx_def bindE_Inr_iff Let_def subscript_def)

lemma fit_file_type:
  "summarize_fit w p = Inr s \<Longrightarrow>
     subscript s ''file'' = Inr (PStr (basename p)) \<and> subscript s ''type'' = Inr (PStr ''fit'')"
  by (auto simp: summarize_fit_def bindE_Inr_iff Let_def subscript_def)

lemma csv_file_type:
  assumes "summarize_csv w p = Inr s" and "read_csv w p = Inr df"
  shows "(subscript s ''file'' = Inr (PStr (basename p)) \<longleftrightarrow> ''file'' \<notin> set (numeric_cols df))
       \<and> (dict_get s ''type'' = None \<longleftrightarrow> ''type'' \<notin> set (numeric_cols df))"
proof -
  from assms obtain dr s2 where
    s2: "numeric_loop df
           (dict_set (dict_set (dict_set (dict_set [] ''file'' (PStr (basename p)))
              ''total_records'' (PInt (int (length (rows df)))))
              ''columns'' (PList (map PStr (columns df)))) ''date_range'' dr)
           (numeric_cols df) = Inr s2"
    and s: "s = dict_set s2 ''sample'' (PList (map PDict (take 10 (rows df))))"
    by (auto simp: summarize_csv_def bindE_Inr_iff Let_def)
  have "map_of s ''file'' = Some (PStr (basename p))" if "''file'' \<notin> set (numeric_cols df)"
    using numeric_loop_other [OF s2 that] by (simp add: s map_of_dict_set)
  moreover have "\<exists>d. map_of s ''file'' = Some (PDict d)" if "''file'' \<in> set (numeric_cols df)"
    using numeric_loop_stats [OF s2 that] by (auto simp: s map_of_dict_set)
  moreover have "map_of s ''type'' = None" if "''type'' \<notin> set (numeric_cols df)"
    using numeric_loop_other [OF s2 that] by (simp add: s map_of_dict_set)
  moreover have "\<exists>d. map_of s ''type'' = Some (PDict d)" if "''type'' \<in> set (numeric_cols df)"
    using numeric_loop_stats [OF s2 that] by (auto simp: s map_of_dict_set)
  ultimately show ?thesis
    by (auto simp: subscript_def dict_get_def)
qed

text \<open>
  C8 (as amended).  Every summary that \<^verbatim>\<open>summarize_gpx\<close> returns has \<^verbatim>\<open>file\<close> equal to the
  base name of the path and \<^verbatim>\<open>type\<close> equal to \<^verbatim>\<open>gpx\<close>; likewise \<^verbatim>\<open>summarize_fit\<close> with
  \<^verbatim>\<open>fit\<close>.  A summary that \<^verbatim>\<open>summarize_csv\<close> returns has \<^verbatim>\<open>file\<close> equal to the base name
  exactly when no numeric column is named \<^verbatim>\<open>file\<close>, and has no \<^verbatim>\<open>type\<close> key exactly when
  no numeric column is named \<^verbatim>\<open>type\<close>; columns of these names that are not numeric change
  nothing.
\<close>

theorem summary_file_and_type:
  "(summarize_gpx w p = Inr s \<longrightarrow>
      subscript s ''file'' = Inr (PStr (basename p)) \<and> subscript s ''type'' = Inr (PStr ''gpx''))
   \<and> (summarize_fit w p = Inr s \<longrightarrow>
      subscript s ''file'' = Inr (PStr (basename p)) \<and> subscript s ''type'' = Inr (PStr ''fit''))
   \<and> (summarize_csv w p = Inr s \<and> read_csv w p = Inr df \<longrightarrow>
      (subscript s ''file'' = Inr (PStr (basename p)) \<longleftrightarrow> ''file'' \<notin> set (numeric_cols df))
      \<and> (dict_get s ''type'' = None \<longleftrightarrow> ''type'' \<notin> set (numeric_cols df)))"
  using gpx_file_type [of w p s] fit_file_type [of w p s] csv_file_type [of w p s df]
  by blast

text \<open>The three summarizers on the example files.\<close>

lemma summarize_csv_hr: "summarize_csv demo_world ''/data/hr.csv'' = Inr hr_summary"
  by (simp add: demo_world_def hr_frame_def hr_summary_def hr_summary_of_def summarize_csv_def
      columns_def numeric_cols_def date_range_def frame_col_def basename_def)

lemma run_summary:
  "summarize_gpx demo_world ''/mixed/run.gpx'' =
     Inr [(''file'', PStr ''run.gpx''), (''type'', PStr ''gpx''), (''total_points'', PInt 0),
          (''start_time'', PStr ''N/A''), (''end_time'', PStr ''N/A''), (''sample_points'', PList [])]"
  by (simp add: demo_world_def empty_gpx_def summarize_gpx_def gpx_points_def basename_def)

lemma ride_summary:
  "summarize_fit demo_world ''/mixed/ride.fit'' =
     Inr [(''file'', PStr ''ride.fit''), (''type'', PStr ''fit''), (''total_records'', PInt 0),
          (''fields'', PList []), (''sample_records'', PList [])]"
  by (simp add: demo_world_def summarize_fit_def basename_def)

theorem summary_file_and_type_witness:
  "(\<exists>s. summarize_gpx demo_world ''/mixed/run.gpx'' = Inr s
       \<and> subscript s ''file'' = Inr (PStr ''run.gpx'') \<and> subscript s ''type'' = Inr (PStr ''gpx''))
   \<and> (\<exists>s. summarize_fit demo_world ''/mixed/ride.fit'' = Inr s
       \<and> subscript s ''file'' = Inr (PStr ''ride.fit'') \<and> subscript s ''type'' = Inr (PStr ''fit''))
   \<and> (\<exists>s. summarize_csv demo_world ''/data/hr.csv'' = Inr s
       \<and> read_csv demo_world ''/data/hr.csv'' = Inr hr_frame
       \<and> subscript s ''file'' = Inr (PStr ''hr.csv'') \<and> dict_get s ''type'' = None)"
proof -
  have b: "basename ''/mixed/run.gpx'' = ''run.gpx''" "basename ''/mixed/ride.fit'' = ''ride.fit''"
    "basename ''/data/hr.csv'' = ''hr.csv''"
    by (simp_all add: basename_def)
  have r: "read_csv demo_world ''/data/hr.csv'' = Inr hr_frame"
    by (simp add: demo_world_def)
  have n: "''file'' \<notin> set (numeric_cols hr_frame)" "''type'' \<notin> set (numeric_cols hr_frame)"
    by (simp_all add: numeric_cols_def hr_frame_def)
  have 1: "\<exists>s. summarize_gpx demo_world ''/mixed/run.gpx'' = Inr s
       \<and> subscript s ''file'' = Inr (PStr ''run.gpx'') \<and> subscript s ''type'' = Inr (PStr ''gpx'')"
    using summary_file_and_type [of demo_world "''/mixed/run.gpx''" _ hr_frame] run_summary
    unfolding b by blast
  have 2: "\<exists>s. summarize_fit demo_world ''/mixed/ride.fit'' = Inr s
       \<and> subscript s ''file'' = Inr (PStr ''ride.fit'') \<and> subscript s ''type'' = Inr (PStr ''fit'')"
    using summary_file_and_type [of demo_world "''/mixed/ride.fit''" _ hr_frame] ride_summary
    unfolding b by blast
  have 3: "\<exists>s. summarize_csv demo_world ''/data/hr.csv'' = Inr s
       \<and> read_csv demo_world ''/data/hr.csv'' = Inr hr_frame
       \<and> subscript s ''file'' = Inr (PStr ''hr.csv'') \<and> dict_get s ''type'' = None"
    using summary_file_and_type [of demo_world "''/data/hr.csv''" _ hr_frame] summarize_csv_hr r n
    unfolding b by blast
  from 1 2 3 show ?thesis by blast
qed

text \<open>
  C8 as stated fails: for the table with the numeric columns \<^verbatim>\<open>type\<close> and \<^verbatim>\<open>file\<close> the
  summary has a \<^verbatim>\<open>type\<close> key, and its \<^verbatim>\<open>file\<close> is a mapping of statistics, not the base
  name.
\<close>

theorem summarize_csv_file_type_counterexample:
  "read_csv demo_world ''/data/typed.csv'' = Inr typed_frame
   \<and> columns typed_frame = [''type'', ''file'']
   \<and> basename ''/data/typed.csv'' = ''typed.csv''
   \<and> summarize_csv demo_world ''/data/typed.csv'' =
       Inr [(''file'', PDict [(''mean'', PFloat ''3.0''), (''min'', PInt 2), (''max'', PInt 4)]),
            (''total_records'', PInt 2),
            (''columns'', PList [PStr ''type'', PStr ''file'']),
            (''date_range'', PStr ''N/A''),
            (''type'', PDict [(''mean'', PFloat ''2.0''), (''min'', PInt 1), (''max'', PInt 3)]),
            (''sample'', PList [PDict [(''type'', PInt 1), (''file'', PInt 2)],
                               PDict [(''type'', PInt 3), (''file'', PInt 4)]])]"
  by (simp add: demo_world_def typed_frame_def summarize_csv_def columns_def numeric_cols_def
      date_range_def frame_col_def basename_def)

subsection \<open>The statistics lines of the prompt\<close>




















subsection \<open>Determinism of the prompt\<close>

text \<open>
  C7.  Two calls of \<^verbatim>\<open>build_llm_prompt\<close> with the same summaries and the same query, made
  at moments of the same day, return the same result: the prompt depends on the clock
  through the date only.
\<close>

theorem build_llm_prompt_deterministic:
  assumes "year clock1 = year clock2" and "month clock1 = month clock2" and "day clock1 = day clock2"
    and "summaries1 = summaries2" and "query1 = query2"
  shows "build_llm_prompt clock1 summaries1 query1 = build_llm_prompt clock2 summaries2 query2"
  using assms by (simp add: build_llm_prompt_def strftime_ymd_def)

theorem build_llm_prompt_deterministic_witness:
  "year morning = year evening \<and> month morning = month evening \<and> day morning = day evening
   \<and> morning \<noteq> evening
   \<and> build_llm_prompt morning [hr_summary] None = build_llm_prompt evening [hr_summary] None"
proof -
  have d: "year morning = year evening" "month morning = month evening" "day morning = day evening"
    and n: "morning \<noteq> evening"
    by (simp_all add: morning_def evening_def)
  from build_llm_prompt_deterministic [OF d refl refl] d n show ?thesis
    by (intro conjI)
qed

subsection \<open>Paths and discovery\<close>

lemma takeWhile_rev_tail:
  assumes "c \<notin> set n"
  shows "rev (takeWhile (\<lambda>x. x \<noteq> c) (rev (pre @ c # n))) = n"
proof -
  have "takeWhile (\<lambda>x. x \<noteq> c) (rev n @ c # rev pre) = rev n @ takeWhile (\<lambda>x. x \<noteq> c) (c # rev pre)"
    by (rule takeWhile_append2) (use assms in auto)
  then show ?thesis by simp
qed

lemma basename_no_sep:
  assumes "CHR ''/'' \<notin> set n"
  shows "basename n = n"
proof -
  have "\<forall>x \<in> set (rev n). x \<noteq> CHR ''/''"
    using assms by auto
  then have "takeWhile (\<lambda>c. c \<noteq> CHR ''/'') (rev n) = rev n"
    by (rule takeWhile_eq_all_conv [THEN iffD2])
  then show ?thesis
    unfolding basename_def by (simp only: rev_rev_ident)
qed

lemma basename_join:
  assumes "CHR ''/'' \<notin> set name"
  shows "basename (path_join d name) = name"
proof -
  from assms have hd: "\<not> (name \<noteq> [] \<and> hd name = CHR ''/'')"
    by (cases name) auto
  show ?thesis
  proof (cases "d = []")
    case True
    with hd assms show ?thesis
      by (simp add: path_join_def basename_no_sep)
  next
    case False
    then have d: "d = butlast d @ [last d]" by simp
    show ?thesis
    proof (cases "last d = CHR ''/''")
      case True
      with d have "d @ name = butlast d @ CHR ''/'' # name" by (metis append_Cons append_Nil append_assoc)
      with hd True False assms show ?thesis
        unfolding path_join_def basename_def
        by (simp only: takeWhile_rev_tail if_True if_False simp_thms)
    next
      case False
      have "d @ ''/'' @ name = d @ CHR ''/'' # name" by simp
      with hd False \<open>d \<noteq> []\<close> assms show ?thesis
        unfolding path_join_def basename_def
        by (simp only: takeWhile_rev_tail if_True if_False simp_thms)
    qed
  qed
qed

lemma suffix_join:
  assumes "CHR ''/'' \<notin> set name"
  shows "suffix name (path_join d name)"
proof -
  from assms have "\<not> (name \<noteq> [] \<and> hd name = CHR ''/'')"
    by (cases name) auto
  then show ?thesis
    by (auto simp: path_join_def suffix_def)
qed

lemma splitext_join:
  assumes "suffix (CHR ''.'' # e) name" and "CHR ''.'' \<notin> set e"
    and "name \<noteq> []" and "hd name \<noteq> CHR ''.''" and "CHR ''/'' \<notin> set name"
  shows "splitext_ext (path_join d name) = CHR ''.'' # e"
proof -
  from assms(1) obtain stem where name: "name = stem @ CHR ''.'' # e"
    by (auto simp: suffix_def)
  from assms(3,4) have body: "dropWhile (\<lambda>c. c = CHR ''.'') name = name"
    by (cases name) auto
  have dot: "CHR ''.'' \<in> set name"
    by (simp add: name)
  have "rev (takeWhile (\<lambda>c. c \<noteq> CHR ''.'') (rev name)) = e"
    unfolding name using assms(2) by (rule takeWhile_rev_tail)
  with body dot show ?thesis
    by (simp add: splitext_ext_def basename_join [OF assms(5)])
qed

lemma glob_star_member:
  assumes "f \<in> set (glob_star w d (CHR ''.'' # e))" and "CHR ''.'' \<notin> set e"
    and "\<forall>n \<in> set (listdir w d). CHR ''/'' \<notin> set n"
  shows "splitext_ext f = CHR ''.'' # e \<and> suffix (CHR ''.'' # e) f"
proof -
  from assms(1) obtain name where n: "name \<in> set (listdir w d)" "name \<noteq> []"
      "hd name \<noteq> CHR ''.''" "suffix (CHR ''.'' # e) name" and f: "f = path_join d name"
    by (auto simp: glob_star_def)
  from assms(3) n(1) have sep: "CHR ''/'' \<notin> set name" by blast
  from n(4) suffix_join [OF sep, of d] have "suffix (CHR ''.'' # e) (path_join d name)"
    by (rule suffix_order.trans)
  with splitext_join [OF n(4) assms(2) n(2,3) sep, of d] f show ?thesis
    by simp
qed

lemma lower_exts:
  "str_lower ''.csv'' = ''.csv''" "str_lower ''.gpx'' = ''.gpx''" "str_lower ''.fit'' = ''.fit''"
  by (simp_all add: str_lower_def lower_char_def)

lemma data_files_member:
  assumes "f \<in> set (data_files w d)" and "\<forall>n \<in> set (listdir w d). CHR ''/'' \<notin> set n"
  shows "(splitext_ext f = ''.csv'' \<and> suffix ''.csv'' f)
       \<or> (splitext_ext f = ''.gpx'' \<and> suffix ''.gpx'' f)
       \<or> (splitext_ext f = ''.fit'' \<and> suffix ''.fit'' f)"
proof -
  from assms(1) consider "f \<in> set (glob_star w d ''.csv'')" | "f \<in> set (glob_star w d ''.gpx'')"
    | "f \<in> set (glob_star w d ''.fit'')"
    by (auto simp: data_files_def)
  then show ?thesis
  proof cases
    case 1
    from glob_star_member [OF 1 _ assms(2)] show ?thesis by simp
  next
    case 2
    from glob_star_member [OF 2 _ assms(2)] show ?thesis by simp
  next
    case 3
    from glob_star_member [OF 3 _ assms(2)] show ?thesis by simp
  qed
qed

subsection \<open>The dispatch loop and the exits of \<^verbatim>\<open>main\<close>\<close>

lemma suffix_same_length:
  assumes "suffix a f" and "suffix b f" and "length a = length b"
  shows "a = b"
proof -
  from assms(1) obtain xs where xs: "f = xs @ a"
    by (auto simp: suffix_def)
  from assms(2) obtain ys where ys: "f = ys @ b"
    by (auto simp: suffix_def)
  from xs ys have "xs @ a = ys @ b" by simp
  with assms(3) show ?thesis by simp
qed

lemma suffix_ext_distinct:
  "suffix ''.gpx'' f \<Longrightarrow> \<not> suffix ''.csv'' f"
  "suffix ''.fit'' f \<Longrightarrow> \<not> suffix ''.csv'' f"
  "suffix ''.fit'' f \<Longrightarrow> \<not> suffix ''.gpx'' f"
  using suffix_same_length [of "''.gpx''" f "''.csv''"] suffix_same_length [of "''.fit''" f "''.csv''"]
    suffix_same_length [of "''.fit''" f "''.gpx''"]
  by auto

lemma dispatch_step:
  assumes "discovered f"
  shows "dispatch w (f # fs) ss ev =
     (case summarize_file w f of
        Inl e \<Rightarrow> (ev @ [CallSummarizer f], Inl e)
      | Inr s \<Rightarrow> dispatch w fs (ss @ [s]) (ev @ [CallSummarizer f]))"
  using assms unfolding discovered_def
  by (auto simp: summarize_file_def lower_exts suffix_ext_distinct)

lemma dispatch_returns:
  assumes "\<forall>f \<in> set fs. discovered f" and "\<forall>f \<in> set fs. \<exists>s. summarize_file w f = Inr s"
  shows "\<exists>ss'. dispatch w fs ss ev = (ev @ map CallSummarizer fs, Inr (ss @ ss'))
            \<and> list_all2 (\<lambda>f s. summarize_file w f = Inr s) fs ss'"
  using assms
proof (induction fs arbitrary: ss ev)
  case Nil
  then show ?case by simp
next
  case (Cons f fs)
  then obtain s where s: "summarize_file w f = Inr s" by auto
  from Cons.prems have d: "discovered f" by simp
  from Cons.IH [of "ss @ [s]" "ev @ [CallSummarizer f]"] Cons.prems obtain ss' where
    "dispatch w fs (ss @ [s]) (ev @ [CallSummarizer f])
       = ((ev @ [CallSummarizer f]) @ map CallSummarizer fs, Inr ((ss @ [s]) @ ss'))"
    "list_all2 (\<lambda>f s. summarize_file w f = Inr s) fs ss'"
    by auto
  with s show ?case
    by (intro exI [of _ "s # ss'"]) (simp add: dispatch_step [OF d] del: dispatch.simps)
qed

lemma dispatch_events:
  assumes "\<forall>f \<in> set fs. discovered f"
  shows "\<exists>n. fst (dispatch w fs ss ev) = ev @ map CallSummarizer (take n fs)"
  using assms
proof (induction fs arbitrary: ss ev)
  case Nil
  then show ?case by simp
next
  case (Cons f fs)
  from Cons.prems have d: "discovered f" by simp
  show ?case
  proof (cases "summarize_file w f")
    case (Inl e)
    then have "fst (dispatch w (f # fs) ss ev) = ev @ map CallSummarizer (take 1 (f # fs))"
      by (simp add: dispatch_step [OF d] del: dispatch.simps)
    then show ?thesis by blast
  next
    case (Inr s)
    from Cons.IH [of "ss @ [s]" "ev @ [CallSummarizer f]"] Cons.prems obtain n where
      "fst (dispatch w fs (ss @ [s]) (ev @ [CallSummarizer f]))
         = (ev @ [CallSummarizer f]) @ map CallSummarizer (take n fs)"
      by auto
    with Inr have "fst (dispatch w (f # fs) ss ev) = ev @ map CallSummarizer (take (Suc n) (f # fs))"
      by (simp add: dispatch_step [OF d] del: dispatch.simps)
    then show ?thesis by blast
  qed
qed

lemma dispatch_length:
  assumes "\<forall>f \<in> set fs. discovered f" and "snd (dispatch w fs ss ev) = Inr ss'"
  shows "length ss' = length ss + length fs"
  using assms
proof (induction fs arbitrary: ss ev)
  case Nil
  then show ?case by simp
next
  case (Cons f fs)
  from Cons.prems have d: "discovered f" by simp
  show ?case
  proof (cases "summarize_file w f")
    case (Inl e)
    with Cons.prems(2) show ?thesis
      by (simp add: dispatch_step [OF d] del: dispatch.simps)
  next
    case (Inr s)
    with Cons.prems(2) have "snd (dispatch w fs (ss @ [s]) (ev @ [CallSummarizer f])) = Inr ss'"
      by (simp add: dispatch_step [OF d] del: dispatch.simps)
    from Cons.IH [OF _ this] Cons.prems(1) show ?thesis by simp
  qed
qed

lemma main_exit_1:
  assumes "\<forall>f \<in> set (data_files w (dir a)). discovered f" and "snd (main w a) = Exit 1"
  shows "data_files w (dir a) = []"
proof (rule ccontr)
  assume ne: "data_files w (dir a) \<noteq> []"
  obtain ev r where d: "dispatch w (data_files w (dir a)) [] [] = (ev, r)"
    by (cases "dispatch w (data_files w (dir a)) [] []")
  show False
  proof (cases r)
    case (Inl e)
    with d ne assms(2) show False
      by (simp add: main_def Let_def)
  next
    case (Inr ss)
    with d dispatch_length [OF assms(1), of w "[]" "[]" ss] ne have "ss \<noteq> []"
      by auto
    with Inr d ne assms(2) show False
      by (auto simp: main_def Let_def split: sum.splits prod.splits)
  qed
qed

text \<open>
  C10.  When no name in the directory contains a \<^verbatim>\<open>/\<close> (as directory entries never do),
  every discovered path ends in \<^verbatim>\<open>.csv\<close>, \<^verbatim>\<open>.gpx\<close> or \<^verbatim>\<open>.fit\<close>, and the lowered result of
  \<^verbatim>\<open>splitext\<close> is one of the three, so the dispatch loop never prints
  \<^verbatim>\<open>Unsupported file type\<close>: its trace consists of summarizer calls on an initial part of
  the discovered files.  The run ends with status 1 only when no file was discovered, so the
  branch \<^verbatim>\<open>No supported files to summarize\<close> is never taken.  When every summarizer
  returns, the loop returns one summary per discovered file, in discovery order.
\<close>

theorem discovered_files_all_dispatched:
  assumes "\<forall>n \<in> set (listdir w (dir a)). CHR ''/'' \<notin> set n"
  shows "(\<forall>f \<in> set (data_files w (dir a)).
            (suffix ''.csv'' f \<or> suffix ''.gpx'' f \<or> suffix ''.fit'' f)
          \<and> str_lower (splitext_ext f) \<in> {''.csv'', ''.gpx'', ''.fit''})
       \<and> (\<exists>n. fst (dispatch w (data_files w (dir a)) [] [])
                = map CallSummarizer (take n (data_files w (dir a))))
       \<and> (snd (main w a) = Exit 1 \<longrightarrow> data_files w (dir a) = [])
       \<and> ((\<forall>f \<in> set (data_files w (dir a)). \<exists>s. summarize_file w f = Inr s) \<longrightarrow>
            (\<exists>ss. dispatch w (data_files w (dir a)) [] []
                     = (map CallSummarizer (data_files w (dir a)), Inr ss)
                \<and> list_all2 (\<lambda>f s. summarize_file w f = Inr s) (data_files w (dir a)) ss))"
proof -
  have d: "\<forall>f \<in> set (data_files w (dir a)). discovered f"
    using data_files_member [OF _ assms] by (auto simp: discovered_def)
  have 1: "\<forall>f \<in> set (data_files w (dir a)).
            (suffix ''.csv'' f \<or> suffix ''.gpx'' f \<or> suffix ''.fit'' f)
          \<and> str_lower (splitext_ext f) \<in> {''.csv'', ''.gpx'', ''.fit''}"
    using d unfolding discovered_def by (auto simp: lower_exts)
  have 2: "\<exists>n. fst (dispatch w (data_files w (dir a)) [] [])
                = map CallSummarizer (take n (data_files w (dir a)))"
    using dispatch_events [OF d, of w "[]" "[]"] by simp
  have 3: "snd (main w a) = Exit 1 \<longrightarrow> data_files w (dir a) = []"
    using main_exit_1 [OF d] by blast
  have 4: "(\<forall>f \<in> set (data_files w (dir a)). \<exists>s. summarize_file w f = Inr s) \<longrightarrow>
            (\<exists>ss. dispatch w (data_files w (dir a)) [] []
                     = (map CallSummarizer (data_files w (dir a)), Inr ss)
                \<and> list_all2 (\<lambda>f s. summarize_file w f = Inr s) (data_files w (dir a)) ss)"
    using dispatch_returns [OF d, of w "[]" "[]"] by simp
  from 1 2 3 4 show ?thesis by (intro conjI)
qed

text \<open>
  C9.  When none of the three patterns matches a name in the directory, \<^verbatim>\<open>main\<close> prints
  that no files were found and exits with status 1; this print is the whole trace, so no
  summarizer and no model call happens.
\<close>

theorem main_no_files:
  assumes "glob_star w (dir a) ''.csv'' = []" and "glob_star w (dir a) ''.gpx'' = []"
    and "glob_star w (dir a) ''.fit'' = []"
  shows "main w a =
     ([Stdout (''No .csv, .gpx, or .fit files found in '' @ dir a @ ''.\<newline>'')], Exit 1)"
  using assms by (simp add: main_def data_files_def)

text \<open>The example world: what discovery and the summarizers give there.\<close>

lemma demo_listing_wf:
  "\<forall>n \<in> set (listdir demo_world ''/mixed''). CHR ''/'' \<notin> set n"
  by (simp add: demo_world_def)

lemma demo_files:
  "data_files demo_world ''/mixed'' = [''/mixed/hr.csv'', ''/mixed/run.gpx'', ''/mixed/ride.fit'']"
  "data_files demo_world ''/data'' = [''/data/hr.csv'']"
  by (simp_all add: data_files_def glob_star_def demo_world_def path_join_def suffix_to_prefix)

lemma demo_globs_other:
  "glob_star demo_world ''/other'' ''.csv'' = []"
  "glob_star demo_world ''/other'' ''.gpx'' = []"
  "glob_star demo_world ''/other'' ''.fit'' = []"
  by (simp_all add: glob_star_def demo_world_def suffix_to_prefix)

lemma summarize_csv_hr_frame:
  "read_csv w f = Inr hr_frame \<Longrightarrow> summarize_csv w f = Inr (hr_summary_of (basename f))"
  by (simp add: hr_frame_def hr_summary_of_def summarize_csv_def columns_def numeric_cols_def
      date_range_def frame_col_def)

lemma demo_summaries:
  "summarize_file demo_world ''/mixed/hr.csv'' = Inr hr_summary"
  "summarize_file demo_world ''/mixed/run.gpx'' =
     Inr [(''file'', PStr ''run.gpx''), (''type'', PStr ''gpx''), (''total_points'', PInt 0),
          (''start_time'', PStr ''N/A''), (''end_time'', PStr ''N/A''), (''sample_points'', PList [])]"
  "summarize_file demo_world ''/mixed/ride.fit'' =
     Inr [(''file'', PStr ''ride.fit''), (''type'', PStr ''fit''), (''total_records'', PInt 0),
          (''fields'', PList []), (''sample_records'', PList [])]"
proof -
  have "read_csv demo_world ''/mixed/hr.csv'' = Inr hr_frame"
    by (simp add: demo_world_def)
  from summarize_csv_hr_frame [OF this] show "summarize_file demo_world ''/mixed/hr.csv'' = Inr hr_summary"
    by (simp add: summarize_file_def suffix_to_prefix basename_def hr_summary_def)
  show "summarize_file demo_world ''/mixed/run.gpx'' =
     Inr [(''file'', PStr ''run.gpx''), (''type'', PStr ''gpx''), (''total_points'', PInt 0),
          (''start_time'', PStr ''N/A''), (''end_time'', PStr ''N/A''), (''sample_points'', PList [])]"
    using run_summary by (simp add: summarize_file_def suffix_to_prefix)
  show "summarize_file demo_world ''/mixed/ride.fit'' =
     Inr [(''file'', PStr ''ride.fit''), (''type'', PStr ''fit''), (''total_records'', PInt 0),
          (''fields'', PList []), (''sample_records'', PList [])]"
    using ride_summary by (simp add: summarize_file_def suffix_to_prefix)
qed

text \<open>
  In the directory with one file of each kind and a text file, the three supported files are
  discovered, the loop calls a summarizer for each and returns three summaries, and the run
  does not end with status 1.
\<close>

theorem discovered_files_all_dispatched_witness:
  "listdir demo_world ''/mixed'' = [''hr.csv'', ''notes.txt'', ''run.gpx'', ''ride.fit'']
   \<and> data_files demo_world ''/mixed'' = [''/mixed/hr.csv'', ''/mixed/run.gpx'', ''/mixed/ride.fit'']
   \<and> (\<exists>ss. dispatch demo_world (data_files demo_world ''/mixed'') [] []
              = (map CallSummarizer (data_files demo_world ''/mixed''), Inr ss)
          \<and> length ss = 3)
   \<and> snd (main demo_world \<lparr> dir = ''/mixed'', model = ''deepseek-r1'', query = None \<rparr>) \<noteq> Exit 1"
proof -
  let ?a = "\<lparr> dir = ''/mixed'', model = ''deepseek-r1'', query = None \<rparr>"
  have wf: "\<forall>n \<in> set (listdir demo_world (dir ?a)). CHR ''/'' \<notin> set n"
    using demo_listing_wf by simp
  note inst = discovered_files_all_dispatched [OF wf]
  have l: "listdir demo_world ''/mixed'' = [''hr.csv'', ''notes.txt'', ''run.gpx'', ''ride.fit'']"
    by (simp add: demo_world_def)
  have ret: "\<forall>f \<in> set (data_files demo_world (dir ?a)). \<exists>s. summarize_file demo_world f = Inr s"
    by (simp add: demo_files demo_summaries)
  from inst [THEN conjunct2, THEN conjunct2, THEN conjunct2, THEN mp, OF ret]
  obtain ss where d: "dispatch demo_world (data_files demo_world ''/mixed'') [] []
              = (map CallSummarizer (data_files demo_world ''/mixed''), Inr ss)"
    and a: "list_all2 (\<lambda>f s. summarize_file demo_world f = Inr s) (data_files demo_world ''/mixed'') ss"
    by auto
  from a have "length ss = 3"
    by (simp add: demo_files list_all2_lengthD [symmetric])
  with d have 1: "\<exists>ss. dispatch demo_world (data_files demo_world ''/mixed'') [] []
              = (map CallSummarizer (data_files demo_world ''/mixed''), Inr ss) \<and> length ss = 3"
    by blast
  from inst [THEN conjunct2, THEN conjunct2, THEN conjunct1]
  have 2: "snd (main demo_world ?a) \<noteq> Exit 1"
    by (auto simp: demo_files)
  from l demo_files(1) 1 2 show ?thesis by (intro conjI)
qed

text \<open>
  In the directory with a text file, a file with an uppercase extension, a hidden file and
  a file without extension, no pattern matches.
\<close>

theorem main_no_files_witness:
  "listdir demo_world ''/other'' = [''notes.txt'', ''RUN.GPX'', ''.hidden.csv'', ''csv'']
   \<and> glob_star demo_world ''/other'' ''.csv'' = []
   \<and> glob_star demo_world ''/other'' ''.gpx'' = []
   \<and> glob_star demo_world ''/other'' ''.fit'' = []
   \<and> main demo_world \<lparr> dir = ''/other'', model = ''deepseek-r1'', query = None \<rparr>
       = ([Stdout ''No .csv, .gpx, or .fit files found in /other.\<newline>''], Exit 1)"
proof -
  have l: "listdir demo_world ''/other'' = [''notes.txt'', ''RUN.GPX'', ''.hidden.csv'', ''csv'']"
    by (simp add: demo_world_def)
  have "main demo_world \<lparr> dir = ''/other'', model = ''deepseek-r1'', query = None \<rparr>
       = ([Stdout ''No .csv, .gpx, or .fit files found in /other.\<newline>''], Exit 1)"
    using main_no_files [of demo_world "\<lparr> dir = ''/other'', model = ''deepseek-r1'', query = None \<rparr>"]
      demo_globs_other by simp
  with l demo_globs_other show ?thesis by (intro conjI)
qed

subsection \<open>The model client\<close>









subsection \<open>The run on one heart-rate file\<close>




lemma sublist_append_left: "sublist x ys \<Longrightarrow> sublist x (xs @ ys)"
  by (metis sublist_append)






end
